theory Spec2Isabelle
  imports Main
begin

section \<open>Values, strings and errors of the JavaScript runtime\<close>

text \<open>
  A JavaScript string is a sequence of code units; every character handled below lies in
  the Basic Multilingual Plane, where a code unit is a code point. Code points
  are integers, and \<open>cps\<close> reads an ASCII literal as a string of code points.
\<close>

type_synonym codepoint = int
type_synonym jsstring = "codepoint list"


text \<open>
  The values a caller can pass. Only the type tag matters to the conversion functions:
  the payload of a number is a representative one.
\<close>

datatype jsvalue =
    JUndefined
  | JNull
  | JBoolean bool
  | JNumber int
  | JString jsstring
  | JObject

fun typeof :: "jsvalue \<Rightarrow> string" where
  "typeof JUndefined = ''undefined''"
| "typeof JNull = ''object''"
| "typeof (JBoolean b) = ''boolean''"
| "typeof (JNumber n) = ''number''"
| "typeof (JString s) = ''string''"
| "typeof JObject = ''object''"

datatype error = TypeError string

section \<open>The engine's character tables\<close>



definition isLu :: "codepoint \<Rightarrow> bool" where
  "isLu c \<longleftrightarrow> (0x41 \<le> c \<and> c \<le> 0x5A) \<or> (0xC0 \<le> c \<and> c \<le> 0xD6) \<or> (0xD8 \<le> c \<and> c \<le> 0xDE)"

definition isLl :: "codepoint \<Rightarrow> bool" where
  "isLl c \<longleftrightarrow> (0x61 \<le> c \<and> c \<le> 0x7A) \<or> c = 0xB5 \<or> (0xDF \<le> c \<and> c \<le> 0xF6)
     \<or> (0xF8 \<le> c \<and> c \<le> 0xFF) \<or> c = 0x3BC"

definition isLo :: "codepoint \<Rightarrow> bool" where
  "isLo c \<longleftrightarrow> c = 0xAA \<or> c = 0xBA"

definition isL :: "codepoint \<Rightarrow> bool" where
  "isL c \<longleftrightarrow> isLu c \<or> isLl c \<or> isLo c"

definition isNd :: "codepoint \<Rightarrow> bool" where
  "isNd c \<longleftrightarrow> 0x30 \<le> c \<and> c \<le> 0x39"

definition isNo :: "codepoint \<Rightarrow> bool" where
  "isNo c \<longleftrightarrow> c = 0xB2 \<or> c = 0xB3 \<or> c = 0xB9 \<or> c = 0xBC \<or> c = 0xBD \<or> c = 0xBE"

definition isN :: "codepoint \<Rightarrow> bool" where
  "isN c \<longleftrightarrow> isNd c \<or> isNo c"

definition isM :: "codepoint \<Rightarrow> bool" where
  "isM c \<longleftrightarrow> 0x300 \<le> c \<and> c \<le> 0x36F"

definition isWhiteSpace :: "codepoint \<Rightarrow> bool" where
  "isWhiteSpace c \<longleftrightarrow> (0x09 \<le> c \<and> c \<le> 0x0D) \<or> c = 0x20 \<or> c = 0xA0"

text \<open>The class \<^verbatim>\<open>[^\p{L}\p{N}]\<close>: neither a letter nor a number.\<close>

definition isDelimiter :: "codepoint \<Rightarrow> bool" where
  "isDelimiter c \<longleftrightarrow> \<not> (isL c \<or> isN c)"

text \<open>The class \<^verbatim>\<open>[A-Za-z0-9]\<close>, which the simple implementation writes out.\<close>

definition isAsciiAlnum :: "codepoint \<Rightarrow> bool" where
  "isAsciiAlnum c \<longleftrightarrow> (0x41 \<le> c \<and> c \<le> 0x5A) \<or> (0x61 \<le> c \<and> c \<le> 0x7A) \<or> (0x30 \<le> c \<and> c \<le> 0x39)"

text \<open>
  The full (compatibility) decomposition of each code point of the repertoire that has
  one; every other code point decomposes to itself.
\<close>

definition decompositions :: "(codepoint \<times> jsstring) list" where
  "decompositions =
    [(0xA0, [0x20]), (0xA8, [0x20, 0x308]), (0xAA, [0x61]), (0xAF, [0x20, 0x304]),
     (0xB2, [0x32]), (0xB3, [0x33]), (0xB4, [0x20, 0x301]), (0xB5, [0x3BC]),
     (0xB8, [0x20, 0x327]), (0xB9, [0x31]), (0xBA, [0x6F]),
     (0xBC, [0x31, 0x2044, 0x34]), (0xBD, [0x31, 0x2044, 0x32]), (0xBE, [0x33, 0x2044, 0x34]),
     (0xC0, [0x41, 0x300]), (0xC1, [0x41, 0x301]), (0xC2, [0x41, 0x302]),
     (0xC3, [0x41, 0x303]), (0xC4, [0x41, 0x308]), (0xC5, [0x41, 0x30A]),
     (0xC7, [0x43, 0x327]),
     (0xC8, [0x45, 0x300]), (0xC9, [0x45, 0x301]), (0xCA, [0x45, 0x302]), (0xCB, [0x45, 0x308]),
     (0xCC, [0x49, 0x300]), (0xCD, [0x49, 0x301]), (0xCE, [0x49, 0x302]), (0xCF, [0x49, 0x308]),
     (0xD1, [0x4E, 0x303]),
     (0xD2, [0x4F, 0x300]), (0xD3, [0x4F, 0x301]), (0xD4, [0x4F, 0x302]),
     (0xD5, [0x4F, 0x303]), (0xD6, [0x4F, 0x308]),
     (0xD9, [0x55, 0x300]), (0xDA, [0x55, 0x301]), (0xDB, [0x55, 0x302]), (0xDC, [0x55, 0x308]),
     (0xDD, [0x59, 0x301]),
     (0xE0, [0x61, 0x300]), (0xE1, [0x61, 0x301]), (0xE2, [0x61, 0x302]),
     (0xE3, [0x61, 0x303]), (0xE4, [0x61, 0x308]), (0xE5, [0x61, 0x30A]),
     (0xE7, [0x63, 0x327]),
     (0xE8, [0x65, 0x300]), (0xE9, [0x65, 0x301]), (0xEA, [0x65, 0x302]), (0xEB, [0x65, 0x308]),
     (0xEC, [0x69, 0x300]), (0xED, [0x69, 0x301]), (0xEE, [0x69, 0x302]), (0xEF, [0x69, 0x308]),
     (0xF1, [0x6E, 0x303]),
     (0xF2, [0x6F, 0x300]), (0xF3, [0x6F, 0x301]), (0xF4, [0x6F, 0x302]),
     (0xF5, [0x6F, 0x303]), (0xF6, [0x6F, 0x308]),
     (0xF9, [0x75, 0x300]), (0xFA, [0x75, 0x301]), (0xFB, [0x75, 0x302]), (0xFC, [0x75, 0x308]),
     (0xFD, [0x79, 0x301]), (0xFF, [0x79, 0x308]),
     (0x340, [0x300]), (0x341, [0x301]), (0x343, [0x313]), (0x344, [0x308, 0x301])]"

definition decompose :: "codepoint \<Rightarrow> jsstring" where
  "decompose c = (case map_of decompositions c of Some d \<Rightarrow> d | None \<Rightarrow> [c])"

text \<open>
  \<^verbatim>\<open>s.normalize('NFKD')\<close>. The engine also sorts every run of combining marks by
  combining class; that step permutes marks among themselves only, every caller below
  deletes all marks next, and so it is left out.
\<close>

definition normalizeNFKD :: "jsstring \<Rightarrow> jsstring" where
  "normalizeNFKD s = concat (map decompose s)"

text \<open>\<^verbatim>\<open>toLowerCase\<close> and \<^verbatim>\<open>toUpperCase\<close>; the capital of U+00DF is two letters.\<close>

definition lowerCp :: "codepoint \<Rightarrow> codepoint" where
  "lowerCp c = (if isLu c then c + 0x20 else c)"

definition toLowerCase :: "jsstring \<Rightarrow> jsstring" where
  "toLowerCase s = map lowerCp s"

definition upperCp :: "codepoint \<Rightarrow> jsstring" where
  "upperCp c =
     (if (0x61 \<le> c \<and> c \<le> 0x7A) \<or> (0xE0 \<le> c \<and> c \<le> 0xF6) \<or> (0xF8 \<le> c \<and> c \<le> 0xFE)
      then [c - 0x20]
      else if c = 0xDF then [0x53, 0x53]
      else if c = 0xFF then [0x178]
      else if c = 0xB5 \<or> c = 0x3BC then [0x39C]
      else if c = 0x345 then [0x399]
      else [c])"

definition toUpperCase :: "jsstring \<Rightarrow> jsstring" where
  "toUpperCase s = concat (map upperCp s)"

section \<open>String methods and the regular expressions of the source\<close>

text \<open>\<^verbatim>\<open>s.trim()\<close>, \<^verbatim>\<open>s.charAt(0)\<close> and \<^verbatim>\<open>s.slice(1)\<close>.\<close>

definition trim :: "jsstring \<Rightarrow> jsstring" where
  "trim s = rev (dropWhile isWhiteSpace (rev (dropWhile isWhiteSpace s)))"

definition charAt0 :: "jsstring \<Rightarrow> jsstring" where
  "charAt0 s = take 1 s"

definition slice1 :: "jsstring \<Rightarrow> jsstring" where
  "slice1 s = drop 1 s"

text \<open>\<^verbatim>\<open>words.join(sep)\<close>.\<close>

fun join :: "jsstring \<Rightarrow> jsstring list \<Rightarrow> jsstring" where
  "join sep [] = []"
| "join sep [w] = w"
| "join sep (w # v # ws) = w @ sep @ join sep (v # ws)"

text \<open>
  \<^verbatim>\<open>s.replace(/[class]/g, '')\<close> for a one-character class: every match is deleted.
\<close>

definition removeAll :: "(codepoint \<Rightarrow> bool) \<Rightarrow> jsstring \<Rightarrow> jsstring" where
  "removeAll p s = filter (\<lambda>c. \<not> p c) s"

text \<open>
  \<^verbatim>\<open>s.replace(/([P])([Q])/g, '$1' + sep + '$2')\<close>: the scan goes left to right; where
  two adjacent characters match, the separator goes between them and the scan resumes
  after the second one; elsewhere one character is copied.
\<close>

fun replacePair :: "(codepoint \<Rightarrow> bool) \<Rightarrow> (codepoint \<Rightarrow> bool) \<Rightarrow> jsstring \<Rightarrow> jsstring \<Rightarrow> jsstring" where
  "replacePair p q sep (a # b # cs) =
     (if p a \<and> q b then a # sep @ b # replacePair p q sep cs
      else a # replacePair p q sep (b # cs))"
| "replacePair p q sep cs = cs"

text \<open>
  \<^verbatim>\<open>s.replace(/[class]+/g, sep)\<close>: every maximal run of characters of the class becomes
  one separator.
\<close>

function replaceRuns :: "(codepoint \<Rightarrow> bool) \<Rightarrow> jsstring \<Rightarrow> jsstring \<Rightarrow> jsstring" where
  "replaceRuns p sep [] = []"
| "replaceRuns p sep (c # cs) =
     (if p c then sep @ replaceRuns p sep (dropWhile p cs)
      else c # replaceRuns p sep cs)"
  by pat_completeness auto
termination
  by (relation "measure (\<lambda>(p, sep, s). length s)")
     (auto simp: le_imp_less_Suc length_dropWhile_le)

text \<open>
  \<^verbatim>\<open>s.split(/[class]+/)\<close>: the pieces between the maximal runs of the class, the empty
  piece before a leading run and after a trailing run included; the empty string gives
  one empty piece.
\<close>

function splitRunsFrom :: "(codepoint \<Rightarrow> bool) \<Rightarrow> jsstring \<Rightarrow> jsstring \<Rightarrow> jsstring list" where
  "splitRunsFrom p piece [] = [piece]"
| "splitRunsFrom p piece (c # cs) =
     (if p c then piece # splitRunsFrom p [] (dropWhile p cs)
      else splitRunsFrom p (piece @ [c]) cs)"
  by pat_completeness auto
termination
  by (relation "measure (\<lambda>(p, piece, s). length s)")
     (auto simp: le_imp_less_Suc length_dropWhile_le)

definition splitRuns :: "(codepoint \<Rightarrow> bool) \<Rightarrow> jsstring \<Rightarrow> jsstring list" where
  "splitRuns p s = splitRunsFrom p [] s"



text \<open>
  \<^verbatim>\<open>s.replace(/(\p{Lu}+)(\p{Lu}\p{Ll})/gu, '$1' + sep + '$2')\<close>. At a position, the
  first group is greedy: it takes the whole run of capitals, then gives characters back
  one by one until a capital and a small letter follow it, or until it is empty.
  \<open>acronymAt k s\<close> tries a first group of \<open>k\<close> characters, then of fewer; a match gives
  the two groups and the text after the match.
\<close>

fun acronymAt :: "nat \<Rightarrow> jsstring \<Rightarrow> (jsstring \<times> jsstring \<times> jsstring) option" where
  "acronymAt 0 s = None"
| "acronymAt (Suc k) s =
     (case drop (Suc k) s of
        u # l # rest \<Rightarrow>
          if isLu u \<and> isLl l then Some (take (Suc k) s, [u, l], rest) else acronymAt k s
      | _ \<Rightarrow> acronymAt k s)"

definition matchAcronym :: "jsstring \<Rightarrow> (jsstring \<times> jsstring \<times> jsstring) option" where
  "matchAcronym s = acronymAt (length (takeWhile isLu s)) s"

lemma acronymAt_shorter:
  "acronymAt k s = Some (g1, g2, rest) \<Longrightarrow> length rest < length s"
proof (induction k)
  case 0
  then show ?case by simp
next
  case (Suc k)
  show ?case
  proof (cases "drop (Suc k) s")
    case Nil
    with Suc show ?thesis by simp
  next
    case (Cons u t)
    note dr = this
    show ?thesis
    proof (cases t)
      case Nil
      with dr Suc show ?thesis by simp
    next
      case (Cons l r)
      have "length (drop (Suc k) s) = Suc (Suc (length r))" by (simp add: dr Cons)
      then have len: "length r < length s" by simp
      show ?thesis
      proof (cases "isLu u \<and> isLl l")
        case True
        with Suc.prems dr Cons have "rest = r" by simp
        with len show ?thesis by simp
      next
        case False
        with Suc.prems dr Cons have "acronymAt k s = Some (g1, g2, rest)" by auto
        then show ?thesis by (rule Suc.IH)
      qed
    qed
  qed
qed

function replaceAcronym :: "jsstring \<Rightarrow> jsstring \<Rightarrow> jsstring" where
  "replaceAcronym sep [] = []"
| "replaceAcronym sep (c # cs) =
     (case matchAcronym (c # cs) of
        Some (g1, g2, rest) \<Rightarrow> g1 @ sep @ g2 @ replaceAcronym sep rest
      | None \<Rightarrow> c # replaceAcronym sep cs)"
  by pat_completeness auto
termination
proof (relation "measure (\<lambda>(sep, s). length s)")
  show "wf (measure (\<lambda>(sep, s). length s))" by simp
next
  fix sep :: jsstring and c :: codepoint and cs :: jsstring
  show "((sep, cs), (sep, c # cs)) \<in> measure (\<lambda>(sep, s). length s)" by simp
next
  fix sep :: jsstring and c cs x2 g1 y g2 rest
  assume "matchAcronym (c # cs) = Some x2" "(g1, y) = x2" "(g2, rest) = y"
  then have "acronymAt (length (takeWhile isLu (c # cs))) (c # cs) = Some (g1, g2, rest)"
    by (simp add: matchAcronym_def)
  then have "length rest < length (c # cs)" by (rule acronymAt_shorter)
  then show "((sep, rest), (sep, c # cs)) \<in> measure (\<lambda>(sep, s). length s)" by simp
qed

text \<open>
  \<^verbatim>\<open>s.replace(/^-|-$/g, '')\<close>: a hyphen at the start is deleted, and so is a hyphen at
  the end of what follows.
\<close>

definition removeEdgeHyphens :: "jsstring \<Rightarrow> jsstring" where
  "removeEdgeHyphens s =
     (let t = (case s of [] \<Rightarrow> [] | c # cs \<Rightarrow> if c = 0x2D then cs else s)
      in if t \<noteq> [] \<and> last t = 0x2D then butlast t else t)"

section \<open>The conversion functions\<close>

definition hyphen :: jsstring where
  "hyphen = [0x2D]"

definition space :: jsstring where
  "space = [0x20]"

definition dot :: jsstring where
  "dot = [0x2E]"

text \<open>
  \<^verbatim>\<open>toKebabCase\<close>. The engine modelled here knows Unicode property escapes, so none
  of the guarded statements raises and no \<^verbatim>\<open>catch\<close> branch runs.
\<close>

definition toKebabCase :: "jsvalue \<Rightarrow> error + jsstring" where
  "toKebabCase input =
     (case input of
        JString i \<Rightarrow>
          (let s = trim i;
               s = removeAll isM (normalizeNFKD s);
               s = replacePair (\<lambda>c. isLl c \<or> isNd c) isLu hyphen s;
               s = replaceAcronym hyphen s;
               s = replaceRuns isDelimiter hyphen s;
               s = toLowerCase (removeEdgeHyphens (replaceRuns (\<lambda>c. c = 0x2D) hyphen s))
           in Inr s)
      | _ \<Rightarrow> Inl (TypeError ''toKebabCase: input must be a string''))"

text \<open>The helpers \<^verbatim>\<open>lowerFirst\<close> and \<^verbatim>\<open>capitalize\<close> of the refined \<^verbatim>\<open>toCamelCase\<close>.\<close>

definition lowerFirst :: "jsstring \<Rightarrow> jsstring" where
  "lowerFirst word = toLowerCase word"

definition capitalize :: "jsstring \<Rightarrow> jsstring" where
  "capitalize word =
     (if word = [] then []
      else let firstChar = charAt0 word
           in if list_ex isN firstChar then firstChar @ toLowerCase (slice1 word)
              else toUpperCase firstChar @ toLowerCase (slice1 word))"

text \<open>\<^verbatim>\<open>toCamelCase\<close> of \<^verbatim>\<open>refined_prompt.js\<close>.\<close>

definition toCamelCase :: "jsvalue \<Rightarrow> error + jsstring" where
  "toCamelCase input =
     (case input of
        JString i \<Rightarrow>
          (let str = trim i
           in if str = [] then Inr []
              else
                let str = removeAll isM (normalizeNFKD str);
                    str = replacePair (\<lambda>c. isLl c \<or> isN c) isLu space str;
                    str = replacePair isL isN space str;
                    str = replacePair isN isL space str;
                    str = replaceRuns isDelimiter space str;
                    rawWords = filter (\<lambda>w. w \<noteq> []) (splitRuns isWhiteSpace str)
                in if length rawWords = 0 then Inr []
                   else Inr (lowerFirst (hd rawWords) @ join [] (map capitalize (tl rawWords))))
      | _ \<Rightarrow>
          Inl (TypeError (''toCamelCase expected a string but received ''
                 @ (if input = JNull then ''null'' else typeof input))))"

text \<open>\<^verbatim>\<open>toDotCase\<close> of \<^verbatim>\<open>refined_prompt.js\<close>.\<close>

definition toDotCase :: "jsvalue \<Rightarrow> error + jsstring" where
  "toDotCase input =
     (case input of
        JString i \<Rightarrow>
          (let str = trim i
           in if str = [] then Inr []
              else
                let str = removeAll isM (normalizeNFKD str);
                    str = replacePair (\<lambda>c. isLl c \<or> isN c) isLu space str;
                    str = replacePair isL isN space str;
                    str = replacePair isN isL space str;
                    str = replaceRuns isDelimiter space str;
                    words = filter (\<lambda>w. w \<noteq> []) (splitRuns isWhiteSpace str)
                in if length words = 0 then Inr []
                   else Inr (join dot (map toLowerCase words)))
      | _ \<Rightarrow>
          Inl (TypeError (''toDotCase expected a string but received ''
                 @ (if input = JNull then ''null'' else typeof input))))"

text \<open>
  \<^verbatim>\<open>toCamelCase\<close> of \<^verbatim>\<open>few_shot_prompt.js\<close>: it returns the empty string for an
  argument that is not a string, and it splits on \<^verbatim>\<open>[^A-Za-z0-9]+\<close> only.
\<close>

definition toCamelCase_few_shot :: "jsvalue \<Rightarrow> error + jsstring" where
  "toCamelCase_few_shot input =
     (case input of
        JString i \<Rightarrow>
          (let str = trim i
           in if str = [] then Inr []
              else
                let parts = filter (\<lambda>w. w \<noteq> []) (splitRuns (\<lambda>c. \<not> isAsciiAlnum c) str)
                in if length parts = 0 then Inr []
                   else if length parts = 1 then
                     (let single = hd parts
                      in Inr (toLowerCase (charAt0 single) @ slice1 single))
                   else
                     Inr (join []
                       (map (\<lambda>(index, part).
                               let lower = toLowerCase part
                               in if index = 0 then lower
                                  else toUpperCase (charAt0 lower) @ slice1 lower)
                            (enumerate 0 parts))))
      | _ \<Rightarrow> Inr [])"

section \<open>Notions used in the statements\<close>

















section \<open>Lemmas\<close>

subsection \<open>Adjacent characters\<close>







subsection \<open>Joining words\<close>









subsection \<open>Tokens\<close>










subsection \<open>Replacing runs\<close>






subsection \<open>Splitting on runs\<close>



subsection \<open>The last steps of the kebab pipeline\<close>






subsection \<open>The words of the camel and dot pipelines\<close>



subsection \<open>Inserting a separator between two characters\<close>

lemma replacePair_Nil [simp]: "replacePair p q sep s = [] \<longleftrightarrow> s = []"
  by (induction p q sep s rule: replacePair.induct) auto

lemma hd_replacePair [simp]: "hd (replacePair p q sep s) = hd s"
  by (induction p q sep s rule: replacePair.induct) auto







subsection \<open>The acronym pass\<close>












subsection \<open>Trimming\<close>





subsection \<open>Facts about the character tables\<close>














subsection \<open>Facts about the decomposition\<close>











subsection \<open>The three pipelines in terms of tokens\<close>







subsection \<open>The characters of the tokens\<close>









subsection \<open>Fixed points\<close>









subsection \<open>The shape of a joined text\<close>








subsection \<open>Splitting a joined text\<close>




subsection \<open>Where the two segmentations agree\<close>


subsection \<open>Homogeneous tokens\<close>



subsection \<open>The camel renderer\<close>




subsection \<open>Texts without letters and numbers\<close>






subsection \<open>Marks in the results\<close>






subsection \<open>A precomposed letter\<close>



subsection \<open>ASCII\<close>







subsection \<open>A run of capitals before a capitalised word\<close>









subsection \<open>The two camel implementations\<close>






subsection \<open>The characters the tokens carry\<close>





section \<open>The claims\<close>

subsection \<open>C1: the type guard\<close>

text \<open>
  C1, as amended. For an argument that is not a string, \<^verbatim>\<open>toKebabCase\<close>, \<^verbatim>\<open>toDotCase\<close>
  and the \<^verbatim>\<open>toCamelCase\<close> of \<^verbatim>\<open>refined_prompt.js\<close> raise a TypeError and return nothing;
  the \<^verbatim>\<open>toCamelCase\<close> of \<^verbatim>\<open>few_shot_prompt.js\<close> raises nothing and returns the empty
  string, as its documentation says.
\<close>

theorem type_guard:
  assumes "typeof input \<noteq> ''string''"
  shows "toKebabCase input = Inl (TypeError ''toKebabCase: input must be a string'')
     \<and> toCamelCase input = Inl (TypeError (''toCamelCase expected a string but received ''
            @ (if input = JNull then ''null'' else typeof input)))
     \<and> toDotCase input = Inl (TypeError (''toDotCase expected a string but received ''
            @ (if input = JNull then ''null'' else typeof input)))
     \<and> toCamelCase_few_shot input = Inr []"
  using assms
  by (cases input) (simp_all add: toKebabCase_def toCamelCase_def toDotCase_def toCamelCase_few_shot_def)

theorem type_guard_witness:
  "typeof JNull \<noteq> ''string''
   \<and> toKebabCase JNull = Inl (TypeError ''toKebabCase: input must be a string'')
   \<and> toCamelCase JNull = Inl (TypeError ''toCamelCase expected a string but received null'')
   \<and> toDotCase JNull = Inl (TypeError ''toDotCase expected a string but received null'')
   \<and> toCamelCase_few_shot JNull = Inr []"
  using type_guard [of JNull] by simp

text \<open>
  C1 as stated fails: the \<^verbatim>\<open>toCamelCase\<close> of \<^verbatim>\<open>few_shot_prompt.js\<close>, called with the
  number 123, returns the empty string instead of raising.
\<close>

theorem type_guard_few_shot_counterexample:
  "toCamelCase_few_shot (JNumber 123) = Inr [] \<and> \<not> isl (toCamelCase_few_shot (JNumber 123))"
  by (simp add: toCamelCase_few_shot_def)

subsection \<open>C2: the acronym boundary\<close>




subsection \<open>C3: letters next to digits\<close>




subsection \<open>C4: the words of the kebab and the dot result\<close>




subsection \<open>C5: the camel renderer\<close>



subsection \<open>C6: diacritics\<close>



subsection \<open>C7: every string gives a string\<close>



subsection \<open>C8: kebab and dot results are fixed points\<close>



subsection \<open>C9: the two implementations of toCamelCase\<close>




subsection \<open>C10: the shape of a kebab result\<close>



end
